theory Spec2Isabelle
  imports Main
begin

section \<open>Text\<close>

text \<open>
  The program is the module \<^verbatim>\<open>backend/app/main.py\<close> (class \<^verbatim>\<open>QueryGPTEngine\<close>)
  together with the seed data of \<^verbatim>\<open>database/setup_database.py\<close>.

  A Python \<^verbatim>\<open>str\<close> is modelled as a \<^typ>\<open>string\<close>, one \<^typ>\<open>char\<close> per code point.
  The character functions below are those of Python on the ASCII code points
  (0 to 127), the range in which SQL keywords, fences and terminators live; a
  character above 127 is taken to have no case and to be neither whitespace nor a
  word character.
\<close>

definition isspace :: "char \<Rightarrow> bool" where
  \<comment> \<open>\<^verbatim>\<open>str.isspace\<close> and the class \<^verbatim>\<open>\s\<close>: TAB, LF, VT, FF, CR, FS, GS, RS, US, space\<close>
  "isspace c = (c \<in> set [CHR 0x09, CHR 0x0A, CHR 0x0B, CHR 0x0C, CHR 0x0D,
                          CHR 0x1C, CHR 0x1D, CHR 0x1E, CHR 0x1F, CHR 0x20])"

definition upper_char :: "char \<Rightarrow> char" where
  "upper_char c =
     (case map_of (zip ''abcdefghijklmnopqrstuvwxyz'' ''ABCDEFGHIJKLMNOPQRSTUVWXYZ'') c of
        Some u \<Rightarrow> u
      | None \<Rightarrow> c)"

definition upper :: "string \<Rightarrow> string" where
  \<comment> \<open>\<^verbatim>\<open>str.upper()\<close>\<close>
  "upper s = map upper_char s"

definition strip :: "string \<Rightarrow> string" where
  \<comment> \<open>\<^verbatim>\<open>str.strip()\<close>: whitespace removed at both ends\<close>
  "strip s = rev (dropWhile isspace (rev (dropWhile isspace s)))"

fun startswith :: "string \<Rightarrow> string \<Rightarrow> bool" where
  \<comment> \<open>\<^verbatim>\<open>s.startswith(p)\<close>\<close>
  "startswith s [] = True"
| "startswith [] (p # ps) = False"
| "startswith (c # cs) (p # ps) = (c = p \<and> startswith cs ps)"

fun split :: "char \<Rightarrow> string \<Rightarrow> string list" where
  \<comment> \<open>\<^verbatim>\<open>s.split(sep)\<close> for a separator of one character; the result is never empty\<close>
  "split sep [] = [[]]"
| "split sep (c # cs) =
     (if c = sep then [] # split sep cs
      else (case split sep cs of
              [] \<Rightarrow> [[c]]
            | w # ws \<Rightarrow> (c # w) # ws))"

fun join :: "string \<Rightarrow> string list \<Rightarrow> string" where
  \<comment> \<open>\<^verbatim>\<open>sep.join(xs)\<close>\<close>
  "join sep [] = []"
| "join sep [x] = x"
| "join sep (x # y # ys) = x @ sep @ join sep (y # ys)"

section \<open>The database as the program sees it\<close>

text \<open>
  SQLite is outside the repository. A database is what \<^verbatim>\<open>sqlite3\<close> answers:
  whether \<^verbatim>\<open>sqlite3.connect\<close> raises (with the driver's message), and for every
  statement text given to \<^verbatim>\<open>cursor.execute\<close> either the driver's error message or
  the rows that \<^verbatim>\<open>fetchall\<close> returns, each row a list of column name and value in
  column order.
\<close>

datatype sqlval = SqlNull | SqlInt int | SqlText string

type_synonym row = "(string \<times> sqlval) list"

record database =
  open_error :: "string option"
  run :: "string \<Rightarrow> string + row list"

text \<open>What happens on the connection, in order.\<close>

datatype event = Connect | Cursor | Execute string | Fetchall | Close

datatype exn =
    HTTPException nat string
  | ValueError string
  | SqliteError string
  | RequestException string
  | OtherException string

definition dict :: "row \<Rightarrow> (string \<rightharpoonup> sqlval)" where
  \<comment> \<open>\<^verbatim>\<open>dict(row)\<close> of a \<^verbatim>\<open>sqlite3.Row\<close>: a lookup by name finds the first column of that name\<close>
  "dict r = map_of r"

section \<open>The execution guard\<close>

definition sanitize_sql :: "string \<Rightarrow> string" where
  "sanitize_sql sql_query =
     (let sql_query = strip sql_query
      in if CHR '';'' \<in> set sql_query then hd (split CHR '';'' sql_query) else sql_query)"

text \<open>
  The body of the \<^verbatim>\<open>try\<close> block of \<^verbatim>\<open>_execute_sql_query\<close>: the exception it raises
  or the value it returns, and what it did on the cursor.
\<close>

definition execute_body ::
  "database \<Rightarrow> string \<Rightarrow> (exn + (string \<rightharpoonup> sqlval) list \<times> nat) \<times> event list" where
  "execute_body db sql_query =
     (if \<not> startswith (upper (strip sql_query)) ''SELECT''
      then (Inl (ValueError ''Only SELECT queries are allowed''), [])
      else
        (let sql_query_sanitized = sanitize_sql sql_query
         in case run db sql_query_sanitized of
              Inl msg \<Rightarrow> (Inl (SqliteError msg), [Execute sql_query_sanitized])
            | Inr rows \<Rightarrow>
                (let results = map dict rows
                 in (Inr (results, length results),
                     [Execute sql_query_sanitized, Fetchall]))))"

fun str_exn :: "(nat \<Rightarrow> string \<Rightarrow> string) \<Rightarrow> exn \<Rightarrow> string" where
  \<comment> \<open>\<^verbatim>\<open>str(e)\<close>; the text of an \<^verbatim>\<open>HTTPException\<close> is the web framework's, a parameter\<close>
  "str_exn http_str (HTTPException status_code detail) = http_str status_code detail"
| "str_exn http_str (ValueError msg) = msg"
| "str_exn http_str (SqliteError msg) = msg"
| "str_exn http_str (RequestException msg) = msg"
| "str_exn http_str (OtherException msg) = msg"

text \<open>
  \<^verbatim>\<open>_execute_sql_query\<close>: the connection is opened and the cursor made before the
  \<^verbatim>\<open>try\<close>; an exception of \<^verbatim>\<open>sqlite3.connect\<close> leaves the function as it is;
  \<^verbatim>\<open>except Exception\<close> turns every exception of the body into status 400;
  \<^verbatim>\<open>finally\<close> closes the connection.
\<close>

definition execute_sql_query ::
  "(nat \<Rightarrow> string \<Rightarrow> string) \<Rightarrow> database \<Rightarrow> string
     \<Rightarrow> (exn + (string \<rightharpoonup> sqlval) list \<times> nat) \<times> event list" where
  "execute_sql_query http_str db sql_query =
     (case open_error db of
        Some msg \<Rightarrow> (Inl (SqliteError msg), [Connect])
      | None \<Rightarrow>
          (case execute_body db sql_query of
             (Inl e, evs) \<Rightarrow>
               (Inl (HTTPException 400 (''SQL execution failed: '' @ str_exn http_str e)),
                [Connect, Cursor] @ evs @ [Close])
           | (Inr v, evs) \<Rightarrow> (Inr v, [Connect, Cursor] @ evs @ [Close])))"


section \<open>Regular expressions\<close>

text \<open>
  The patterns of the program are sequences of the following items. Matching is the
  backtracking search of Python's \<^verbatim>\<open>re\<close>: the first way to match in the order of
  preference (a greedy repetition tries the longest run first, a lazy one the shortest)
  is the match.
\<close>

datatype atom =
    One "char \<Rightarrow> bool"
  | Star "char \<Rightarrow> bool"
  | LazyStar "char \<Rightarrow> bool"
  | WordBoundary
  | EndOfText
  | Mark

definition word_char :: "char \<Rightarrow> bool" where
  \<comment> \<open>the class \<^verbatim>\<open>\w\<close>\<close>
  "word_char c =
     (c \<in> set ''abcdefghijklmnopqrstuvwxyzABCDEFGHIJKLMNOPQRSTUVWXYZ0123456789_'')"

fun word_at :: "char option \<Rightarrow> bool" where
  "word_at None = False"
| "word_at (Some c) = word_char c"

fun first_char :: "string \<Rightarrow> char option" where
  "first_char [] = None"
| "first_char (c # cs) = Some c"

text \<open>
  \<open>match_here p prev s\<close> matches the pattern \<open>p\<close> at the start of \<open>s\<close>, where \<open>prev\<close>
  is the character before \<open>s\<close> in the whole text (for \<^verbatim>\<open>\b\<close>). The result has the
  text that remained at each \<open>Mark\<close>, the last character before the end of the match,
  and the text after the match.
\<close>

fun match_here ::
  "atom list \<Rightarrow> char option \<Rightarrow> string \<Rightarrow> (string list \<times> char option \<times> string) option" where
  "match_here [] prev s = Some ([], prev, s)"
| "match_here (One P # p) prev [] = None"
| "match_here (One P # p) prev (c # cs) = (if P c then match_here p (Some c) cs else None)"
| "match_here (Star P # p) prev [] = match_here p prev []"
| "match_here (Star P # p) prev (c # cs) =
     (if P c
      then (case match_here (Star P # p) (Some c) cs of
              Some m \<Rightarrow> Some m
            | None \<Rightarrow> match_here p prev (c # cs))
      else match_here p prev (c # cs))"
| "match_here (LazyStar P # p) prev [] = match_here p prev []"
| "match_here (LazyStar P # p) prev (c # cs) =
     (case match_here p prev (c # cs) of
        Some m \<Rightarrow> Some m
      | None \<Rightarrow> if P c then match_here (LazyStar P # p) (Some c) cs else None)"
| "match_here (WordBoundary # p) prev s =
     (if word_at prev = word_at (first_char s) then None else match_here p prev s)"
| "match_here (EndOfText # p) prev s =
     (if s = [] \<or> s = [CHR 0x0A] then match_here p prev s else None)"
| "match_here (Mark # p) prev s =
     (case match_here p prev s of
        None \<Rightarrow> None
      | Some (ms, m) \<Rightarrow> Some (s # ms, m))"

text \<open>The leftmost match: the text before it, and the match.\<close>

fun search ::
  "atom list \<Rightarrow> char option \<Rightarrow> string
     \<Rightarrow> (string \<times> string list \<times> char option \<times> string) option" where
  "search p prev [] =
     (case match_here p prev [] of None \<Rightarrow> None | Some m \<Rightarrow> Some ([], m))"
| "search p prev (c # cs) =
     (case match_here p prev (c # cs) of
        Some m \<Rightarrow> Some ([], m)
      | None \<Rightarrow>
          (case search p (Some c) cs of
             None \<Rightarrow> None
           | Some (pre, m) \<Rightarrow> Some (c # pre, m)))"

definition group1 :: "string list \<Rightarrow> string" where
  \<comment> \<open>the text between the first two marks\<close>
  "group1 ms =
     (case ms of
        m1 # m2 # _ \<Rightarrow> take (length m1 - length m2) m1
      | _ \<Rightarrow> [])"

text \<open>
  \<^verbatim>\<open>re.sub(pattern, repl, s)\<close>: every match, left to right and not overlapping, is
  replaced by \<open>repl\<close> of the matched text and the marks; the search goes on behind the
  match, in the original text. No pattern of the program matches the empty text, so
  each match shortens the rest; the last branch stands for nothing in the program.
\<close>

function sub ::
  "atom list \<Rightarrow> (string \<Rightarrow> string list \<Rightarrow> string) \<Rightarrow> char option \<Rightarrow> string \<Rightarrow> string" where
  "sub p repl prev s =
     (case search p prev s of
        None \<Rightarrow> s
      | Some (pre, ms, l, r) \<Rightarrow>
          if length r < length s
          then pre @ repl (take (length s - length pre - length r) (drop (length pre) s)) ms
                @ sub p repl l r
          else s)"
  by pat_completeness auto
termination
  by (relation "measure (\<lambda>(p, repl, prev, s). length s)") auto

function replace :: "string \<Rightarrow> string \<Rightarrow> string \<Rightarrow> string" where
  \<comment> \<open>\<^verbatim>\<open>s.replace(old, new)\<close> for a non-empty \<open>old\<close>\<close>
  "replace old new [] = []"
| "replace old new (c # cs) =
     (if old \<noteq> [] \<and> startswith (c # cs) old
      then new @ replace old new (drop (length old) (c # cs))
      else c # replace old new cs)"
  by pat_completeness auto
termination
  by (relation "measure (\<lambda>(old, new, s). length s)") auto

definition literal :: "string \<Rightarrow> atom list" where
  "literal s = map (\<lambda>k. One (\<lambda>c. c = k)) s"

definition literal_ci :: "string \<Rightarrow> atom list" where
  \<comment> \<open>an upper-case word under the flag \<^verbatim>\<open>(?i)\<close>\<close>
  "literal_ci s = map (\<lambda>k. One (\<lambda>c. upper_char c = k)) s"

definition fence_pattern :: "atom list" where
  \<comment> \<open>\<^verbatim>\<open>```[\s\S]*?```\<close>\<close>
  "fence_pattern = literal ''```'' @ [LazyStar (\<lambda>c. True)] @ literal ''```''"

definition semicolons_pattern :: "atom list" where
  \<comment> \<open>\<^verbatim>\<open>;+$\<close>\<close>
  "semicolons_pattern = [One (\<lambda>c. c = CHR '';''), Star (\<lambda>c. c = CHR '';''), EndOfText]"

definition call1_pattern :: "string \<Rightarrow> atom list" where
  \<comment> \<open>\<^verbatim>\<open>(?i)\bNAME\s*\(\s*([^)]+?)\s*\)\<close>\<close>
  "call1_pattern name =
     [WordBoundary] @ literal_ci name
     @ [Star isspace, One (\<lambda>c. c = CHR ''(''), Star isspace,
        Mark, One (\<lambda>c. c \<noteq> CHR '')''), LazyStar (\<lambda>c. c \<noteq> CHR '')''), Mark,
        Star isspace, One (\<lambda>c. c = CHR '')'')]"

definition call0_pattern :: "string \<Rightarrow> atom list" where
  \<comment> \<open>\<^verbatim>\<open>(?i)\bNAME\s*\(\s*\)\<close>\<close>
  "call0_pattern name =
     [WordBoundary] @ literal_ci name
     @ [Star isspace, One (\<lambda>c. c = CHR ''(''), Star isspace, One (\<lambda>c. c = CHR '')'')]"

section \<open>Extraction and normalisation\<close>

definition sql_keywords :: "string list" where
  "sql_keywords = [''SELECT'', ''WITH'', ''INSERT'', ''UPDATE'', ''DELETE'']"

definition strip_fences :: "string \<Rightarrow> string" where
  \<comment> \<open>line 130: each fenced block is replaced by its text without the fences, stripped\<close>
  "strip_fences text = sub fence_pattern (\<lambda>g ms. strip (replace ''```'' [] g)) None text"

text \<open>
  The loop over the lines (lines 139 to 151), with \<open>found_sql\<close> and \<open>sql_lines\<close> as
  arguments; the \<^verbatim>\<open>break\<close> returns what has been collected.
\<close>

fun collect :: "bool \<Rightarrow> string list \<Rightarrow> string list \<Rightarrow> string list" where
  "collect found_sql [] sql_lines = sql_lines"
| "collect found_sql (l # ls) sql_lines =
     (let line = strip l
      in if \<not> found_sql
         then (if list_ex (\<lambda>keyword. startswith (upper line) keyword) sql_keywords
               then collect True ls (sql_lines @ [line])
               else collect False ls sql_lines)
         else (if line \<noteq> [] \<and> \<not> startswith line ''--'' \<and> \<not> startswith line ''#''
               then collect True ls (sql_lines @ [line])
               else if line = [] then sql_lines
               else collect True ls sql_lines))"

definition collapse_semicolons :: "string \<Rightarrow> string" where
  \<comment> \<open>line 156\<close>
  "collapse_semicolons s = sub semicolons_pattern (\<lambda>g ms. '';'') None s"

definition strftime_call :: "string \<Rightarrow> string \<Rightarrow> string list \<Rightarrow> string" where
  \<comment> \<open>the template \<^verbatim>\<open>strftime('%Y', \1)\<close>, with the format letter as a parameter\<close>
  "strftime_call letter g ms = ''strftime('' @ [CHR 0x27] @ ''%'' @ letter @ [CHR 0x27] @ '', '' @ group1 ms @ '')''"

definition rewrite_dates :: "string \<Rightarrow> string" where
  \<comment> \<open>lines 160 to 165, in the order of the source\<close>
  "rewrite_dates s =
     (let s = sub (call1_pattern ''YEAR'') (strftime_call ''Y'') None s;
          s = sub (call1_pattern ''MONTH'') (strftime_call ''m'') None s;
          s = sub (call1_pattern ''DAY'') (strftime_call ''d'') None s;
          s = sub (call0_pattern ''NOW'') (\<lambda>g ms. ''CURRENT_TIMESTAMP'') None s;
          s = sub (call0_pattern ''CURDATE'') (\<lambda>g ms. ''DATE('' @ [CHR 0x27] @ ''now'' @ [CHR 0x27] @ '')'') None s;
          s = sub (call0_pattern ''GETDATE'') (\<lambda>g ms. ''CURRENT_TIMESTAMP'') None s
      in s)"

definition extract_sql_query :: "string \<Rightarrow> string" where
  "extract_sql_query text =
     (let text = strip text;
          text = strip_fences text;
          lines = split (CHR 0x0A) text;
          sql_lines = collect False lines [];
          sql_query = join '' '' sql_lines;
          sql_query = collapse_semicolons sql_query;
          sql_query = strip sql_query;
          sql_query = rewrite_dates sql_query
      in if sql_query = [] then text else sql_query)"

section \<open>The seed data\<close>

text \<open>
  The table \<^verbatim>\<open>customers\<close> of \<^verbatim>\<open>create_database\<close> and the rows that
  \<^verbatim>\<open>populate_sample_data\<close> inserts into it.
\<close>

definition customers_columns :: "string list" where
  "customers_columns =
     [''customer_id'', ''first_name'', ''last_name'', ''email'', ''registration_date'',
      ''country'', ''city'', ''is_active'']"

definition customers_data :: "sqlval list list" where
  "customers_data =
     [[SqlInt 1, SqlText ''John'', SqlText ''Smith'', SqlText ''john.smith@email.com'',
       SqlText ''2023-01-15'', SqlText ''USA'', SqlText ''New York'', SqlInt 1],
      [SqlInt 2, SqlText ''Sarah'', SqlText ''Johnson'', SqlText ''sarah.j@email.com'',
       SqlText ''2023-02-20'', SqlText ''USA'', SqlText ''Los Angeles'', SqlInt 1],
      [SqlInt 3, SqlText ''Mike'', SqlText ''Brown'', SqlText ''mike.brown@email.com'',
       SqlText ''2023-03-10'', SqlText ''Canada'', SqlText ''Toronto'', SqlInt 1],
      [SqlInt 4, SqlText ''Emma'', SqlText ''Davis'', SqlText ''emma.davis@email.com'',
       SqlText ''2023-04-05'', SqlText ''UK'', SqlText ''London'', SqlInt 0],
      [SqlInt 5, SqlText ''David'', SqlText ''Wilson'', SqlText ''david.w@email.com'',
       SqlText ''2023-05-12'', SqlText ''Australia'', SqlText ''Sydney'', SqlInt 1]]"

definition customers_rows :: "row list" where
  "customers_rows = map (zip customers_columns) customers_data"

definition customers_from :: "string \<Rightarrow> row list" where
  \<comment> \<open>the rows of \<^verbatim>\<open>SELECT * FROM customers WHERE country = '...'\<close>, in key order\<close>
  "customers_from c = filter (\<lambda>r. map_of r ''country'' = Some (SqlText c)) customers_rows"

definition usa_query :: string where
  "usa_query = ''SELECT * FROM customers WHERE country = '' @ [CHR 0x27] @ ''USA'' @ [CHR 0x27]"

definition seed_run :: "string \<Rightarrow> string + row list" where
  \<comment> \<open>what SQLite answers on the seed data, for the two statements modelled here\<close>
  "seed_run stmt =
     (if stmt = ''SELECT * FROM customers'' then Inr customers_rows
      else if stmt = usa_query then Inr (customers_from ''USA'')
      else Inl ''statement not modelled'')"

definition seed_db :: database where
  "seed_db = \<lparr>open_error = None, run = seed_run\<rparr>"

section \<open>The orchestrator\<close>

function str_nat :: "nat \<Rightarrow> string" where
  \<comment> \<open>\<^verbatim>\<open>str(n)\<close> for a count\<close>
  "str_nat n =
     (if n < 10 then [''0123456789'' ! n]
      else str_nat (n div 10) @ [''0123456789'' ! (n mod 10)])"
  by pat_completeness auto
termination
  by (relation "measure id") auto

definition status_and_detail :: "nat \<Rightarrow> string \<Rightarrow> string" where
  \<comment> \<open>one rendering of an \<^verbatim>\<open>HTTPException\<close> as text (that of current Starlette
      releases, \<^verbatim>\<open>f"{status_code}: {detail}"\<close>), for closed examples\<close>
  "status_and_detail status_code detail = str_nat status_code @ '': '' @ detail"

definition build_prompt :: "string \<Rightarrow> string \<Rightarrow> string" where
  \<comment> \<open>the f-string of \<^verbatim>\<open>_generate_sql_with_ollama\<close>\<close>
  "build_prompt schema_info natural_query =
     ''You are a SQL expert. Convert the following natural language query to SQL.''
     @ [CHR 0x0A, CHR 0x0A] @ schema_info @ [CHR 0x0A, CHR 0x0A]
     @ ''Business Rules:'' @ [CHR 0x0A]
     @ ''- Use proper joins between tables'' @ [CHR 0x0A]
     @ ''- Always include meaningful column aliases'' @ [CHR 0x0A]
     @ ''- For revenue calculations, multiply quantity by unit_price'' @ [CHR 0x0A]
     @ ''- Active customers have is_active = 1'' @ [CHR 0x0A]
     @ ''- Completed orders have status = '' @ [CHR 0x27] @ ''completed'' @ [CHR 0x27]
     @ [CHR 0x0A, CHR 0x0A]
     @ ''Natural Language Query: '' @ natural_query @ [CHR 0x0A, CHR 0x0A]
     @ ''Generate only the SQL query, no explanations. The query should be valid SQLite syntax.''
     @ [CHR 0x0A, CHR 0x0A] @ ''SQL Query:''"

definition generate_explanation ::
  "string \<Rightarrow> string \<Rightarrow> (string \<rightharpoonup> sqlval) list \<Rightarrow> string" where
  "generate_explanation natural_query sql_query results =
     ''I converted your question '' @ [CHR 0x27] @ natural_query @ [CHR 0x27]
     @ '' into the following SQL query:'' @ [CHR 0x0A, CHR 0x0A]
     @ sql_query @ [CHR 0x0A, CHR 0x0A]
     @ ''This query returned '' @ str_nat (length results) @ '' rows.'' @ [CHR 0x0A]
     @ (if results \<noteq> []
        then ''It likely selects, filters, and aggregates data as per your question.'' @ [CHR 0x0A]
        else [])"

text \<open>
  The engine: its database, the schema text made when it starts, the completion
  service (the answer to a prompt: the generated text, or the exception that
  \<^verbatim>\<open>requests\<close> or the decoding of the answer raises), and the framework's text of
  an \<^verbatim>\<open>HTTPException\<close>.
\<close>

record engine =
  db :: database
  schema_info :: string
  complete :: "string \<Rightarrow> exn + string"
  http_str :: "nat \<Rightarrow> string \<Rightarrow> string"

definition generate_sql_with_ollama :: "engine \<Rightarrow> string \<Rightarrow> exn + string" where
  "generate_sql_with_ollama eng natural_query =
     (case complete eng (build_prompt (schema_info eng) natural_query) of
        Inr generated_text \<Rightarrow> Inr (extract_sql_query generated_text)
      | Inl (RequestException msg) \<Rightarrow> Inl (HTTPException 500 ''Failed to generate SQL query'')
      | Inl e \<Rightarrow> Inl e)"

text \<open>
  The response, without \<^verbatim>\<open>execution_time\<close>: that field is a difference of two
  readings of the wall clock, a floating-point number that no claim here is about.
\<close>

record query_response =
  sql_query :: string
  results :: "(string \<rightharpoonup> sqlval) list"
  explanation :: string
  row_count :: nat

definition process_query :: "engine \<Rightarrow> string \<Rightarrow> exn + query_response" where
  \<comment> \<open>\<^verbatim>\<open>except Exception\<close> catches every exception of the three steps, an
      \<^verbatim>\<open>HTTPException\<close> too, and raises status 500 with \<^verbatim>\<open>str(e)\<close>\<close>
  "process_query eng natural_query =
     (case generate_sql_with_ollama eng natural_query of
        Inl e \<Rightarrow> Inl (HTTPException 500 (str_exn (http_str eng) e))
      | Inr sql \<Rightarrow>
          (case fst (execute_sql_query (http_str eng) (db eng) sql) of
             Inl e \<Rightarrow> Inl (HTTPException 500 (str_exn (http_str eng) e))
           | Inr (res, n) \<Rightarrow>
               Inr \<lparr>sql_query = sql, results = res,
                    explanation = generate_explanation natural_query sql res,
                    row_count = n\<rparr>))"

record query_request =
  query :: string
  user_id :: string

definition api_process_query :: "engine \<Rightarrow> query_request \<Rightarrow> exn + query_response" where
  \<comment> \<open>the handler of \<^verbatim>\<open>POST /api/query\<close>\<close>
  "api_process_query eng request = process_query eng (query request)"

definition fixed_completion :: "string \<Rightarrow> string \<Rightarrow> exn + string" where
  \<comment> \<open>a completion service that answers every prompt with the same text\<close>
  "fixed_completion generated_text prompt = Inr generated_text"

section \<open>Predicates of the properties\<close>





definition scenario_b :: string where
  \<comment> \<open>the completion response of scenario B\<close>
  "scenario_b =
     ''Sure! Here'' @ [CHR 0x27] @ ''s the query:'' @ [CHR 0x0A]
     @ ''```sql'' @ [CHR 0x0A]
     @ ''SELECT * FROM customers;'' @ [CHR 0x0A]
     @ ''```'' @ [CHR 0x0A]"

definition scenario_a_engine :: engine where
  \<comment> \<open>an engine on the seed data whose completion service answers with the query for
      the customers from the USA (scenario A)\<close>
  "scenario_a_engine =
     \<lparr>db = seed_db, schema_info = [], complete = fixed_completion usa_query,
      http_str = status_and_detail\<rparr>"

definition scenario_c_engine :: engine where
  \<comment> \<open>an engine on the seed data whose completion service answers with the candidate
      of scenario C\<close>
  "scenario_c_engine =
     \<lparr>db = seed_db, schema_info = [],
      complete = fixed_completion ''DELETE FROM customers; SELECT 1;'',
      http_str = status_and_detail\<rparr>"

section \<open>Properties of the execution guard\<close>


















section \<open>Properties of the extractor\<close>

declare sub.simps [simp del]







text \<open>
  Claim C5 (scenario B): the completion response with a preamble line and a fenced
  block extracts to the statement inside the block.
\<close>

theorem scenario_b_extracts:
  "extract_sql_query scenario_b = ''SELECT * FROM customers;''"
  by code_simp







text \<open>
  The condition is needed: a call left by the date rewrite is an artifact, and the
  second extraction rewrites it.
\<close>

lemma extract_twice_differs_on_nested_call:
  "extract_sql_query (extract_sql_query ''SELECT YEAR(YEAR(a))'')
     \<noteq> extract_sql_query ''SELECT YEAR(YEAR(a))''"
  by code_simp





section \<open>Properties of the seed data and of the orchestrator\<close>

lemma usa_query_passes: "startswith (upper (strip usa_query)) ''SELECT''"
  by code_simp

lemma sanitize_usa_query: "sanitize_sql usa_query = usa_query"
  by code_simp

lemma length_customers_from_usa: "length (customers_from ''USA'') = 2"
  by code_simp

lemma execute_usa_query:
  assumes "open_error d = None" and "run d usa_query = Inr (customers_from ''USA'')"
  shows "execute_sql_query h d usa_query
           = (Inr (map dict (customers_from ''USA''), 2),
              [Connect, Cursor, Execute usa_query, Fetchall, Close])"
  using assms
  by (simp add: execute_sql_query_def execute_body_def usa_query_passes sanitize_usa_query
        length_customers_from_usa)

lemma extract_usa_query: "extract_sql_query usa_query = usa_query"
  by code_simp

text \<open>
  Scenario A from end to end, on an engine whose completion service answers with the
  query for the customers from the USA.
\<close>

lemma scenario_a_end_to_end:
  "process_query scenario_a_engine q
     = Inr \<lparr>sql_query = usa_query, results = map dict (customers_from ''USA''),
            explanation = generate_explanation q usa_query (map dict (customers_from ''USA'')),
            row_count = 2\<rparr>"
proof -
  have a: "open_error (db scenario_a_engine) = None"
    by (simp add: scenario_a_engine_def seed_db_def)
  have b: "run (db scenario_a_engine) usa_query = Inr (customers_from ''USA'')"
    by (simp add: scenario_a_engine_def seed_db_def seed_run_def usa_query_def)
  have c: "generate_sql_with_ollama scenario_a_engine q = Inr usa_query"
    by (simp add: generate_sql_with_ollama_def scenario_a_engine_def fixed_completion_def
          extract_usa_query)
  show ?thesis
    by (simp add: process_query_def c execute_usa_query [OF a b])
qed

text \<open>
  Claim C3, as stated: of the five customers of the seed data exactly one is from the
  USA, so the query for the customers from the USA has row count 1. The seed data has
  two customers from the USA, John Smith (1) and Sarah Johnson (2), and the row count
  is 2.
\<close>

theorem usa_row_count_counterexample:
  "length customers_data = 5
   \<and> map (\<lambda>r. map_of r ''customer_id'') (customers_from ''USA'')
       = [Some (SqlInt 1), Some (SqlInt 2)]
   \<and> map_sum id snd (fst (execute_sql_query status_and_detail seed_db usa_query)) = Inr 2"
  by code_simp

text \<open>
  Claim C3, amended: the seed data has 5 customers of which exactly two are from the
  USA, John Smith (\<open>customer_id\<close> 1) and Sarah Johnson (\<open>customer_id\<close> 2); on a database
  that answers the query for the customers from the USA with these rows, executing it
  yields exactly the USA rows, with row count 2.
\<close>

theorem usa_customers_row_count:
  assumes "open_error d = None" and "run d usa_query = Inr (customers_from ''USA'')"
  shows "length customers_data = 5
    \<and> map (\<lambda>r. (map_of r ''customer_id'', map_of r ''first_name'', map_of r ''last_name'',
                 map_of r ''country'')) (customers_from ''USA'')
        = [(Some (SqlInt 1), Some (SqlText ''John''), Some (SqlText ''Smith''),
            Some (SqlText ''USA'')),
           (Some (SqlInt 2), Some (SqlText ''Sarah''), Some (SqlText ''Johnson''),
            Some (SqlText ''USA''))]
    \<and> execute_sql_query h d usa_query
        = (Inr (map dict (customers_from ''USA''), 2),
           [Connect, Cursor, Execute usa_query, Fetchall, Close])"
proof -
  have a: "length customers_data = 5"
    by (simp add: customers_data_def)
  have b: "map (\<lambda>r. (map_of r ''customer_id'', map_of r ''first_name'', map_of r ''last_name'',
                 map_of r ''country'')) (customers_from ''USA'')
        = [(Some (SqlInt 1), Some (SqlText ''John''), Some (SqlText ''Smith''),
            Some (SqlText ''USA'')),
           (Some (SqlInt 2), Some (SqlText ''Sarah''), Some (SqlText ''Johnson''),
            Some (SqlText ''USA''))]"
    by code_simp
  have c: "execute_sql_query h d usa_query
        = (Inr (map dict (customers_from ''USA''), 2),
           [Connect, Cursor, Execute usa_query, Fetchall, Close])"
    using assms by (rule execute_usa_query)
  show ?thesis
    using a b c by simp
qed

theorem usa_customers_row_count_witness:
  "open_error seed_db = None
   \<and> run seed_db usa_query = Inr (customers_from ''USA'')
   \<and> execute_sql_query status_and_detail seed_db usa_query
        = (Inr (map dict (customers_from ''USA''), 2),
           [Connect, Cursor, Execute usa_query, Fetchall, Close])"
proof -
  have a: "open_error seed_db = None"
    by (simp add: seed_db_def)
  have b: "run seed_db usa_query = Inr (customers_from ''USA'')"
    by code_simp
  show ?thesis
    using usa_customers_row_count [OF a b, where h = status_and_detail] a b by simp
qed

text \<open>Every failure that leaves \<open>process_query\<close> has status 500.\<close>

lemma process_query_failure_status:
  "process_query eng q = Inl e \<Longrightarrow> \<exists>detail. e = HTTPException 500 detail"
  by (auto simp: process_query_def split: sum.splits prod.splits)

text \<open>
  Claim C2 says that a rejection by the execution guard reaches the caller of
  \<open>process_query\<close> as a caller-input failure. The guard raises status 400, but the
  \<^verbatim>\<open>except Exception\<close> of \<open>process_query\<close> catches that exception as well and
  raises status 500, with the text of the caught exception as its detail: what the
  code does with a rejection of the guard, for a policy violation and for a statement
  that the database rejects alike.
\<close>

theorem guard_rejection_reaches_caller_as_500:
  assumes "complete eng (build_prompt (schema_info eng) q) = Inr generated_text"
    and "fst (execute_sql_query (http_str eng) (db eng) (extract_sql_query generated_text))
           = Inl (HTTPException 400 detail)"
  shows "process_query eng q = Inl (HTTPException 500 (http_str eng 400 detail))"
  using assms by (simp add: process_query_def generate_sql_with_ollama_def)

theorem guard_rejection_reaches_caller_as_500_witness:
  "complete scenario_c_engine
     (build_prompt (schema_info scenario_c_engine) ''Remove all customers'')
     = Inr ''DELETE FROM customers; SELECT 1;''
   \<and> fst (execute_sql_query (http_str scenario_c_engine) (db scenario_c_engine)
            (extract_sql_query ''DELETE FROM customers; SELECT 1;''))
       = Inl (HTTPException 400 ''SQL execution failed: Only SELECT queries are allowed'')
   \<and> process_query scenario_c_engine ''Remove all customers''
       = Inl (HTTPException 500 ''400: SQL execution failed: Only SELECT queries are allowed'')"
proof -
  have a: "complete scenario_c_engine
             (build_prompt (schema_info scenario_c_engine) ''Remove all customers'')
           = Inr ''DELETE FROM customers; SELECT 1;''"
    by (simp add: scenario_c_engine_def fixed_completion_def)
  have x: "extract_sql_query ''DELETE FROM customers; SELECT 1;''
             = ''DELETE FROM customers; SELECT 1;''"
    by code_simp
  have n: "\<not> startswith (upper (strip ''DELETE FROM customers; SELECT 1;'')) ''SELECT''"
    by code_simp
  have b: "fst (execute_sql_query (http_str scenario_c_engine) (db scenario_c_engine)
                 (extract_sql_query ''DELETE FROM customers; SELECT 1;''))
           = Inl (HTTPException 400 ''SQL execution failed: Only SELECT queries are allowed'')"
    using n
    by (simp add: x execute_sql_query_def execute_body_def scenario_c_engine_def seed_db_def)
  have h: "http_str scenario_c_engine 400 ''SQL execution failed: Only SELECT queries are allowed''
             = ''400: SQL execution failed: Only SELECT queries are allowed''"
    by code_simp
  show ?thesis
    using guard_rejection_reaches_caller_as_500 [OF a b] a b h by simp
qed

text \<open>
  Claim C9: the caller identifier is accepted and never read. Two requests with the
  same query text get the same outcome from the same engine, whatever their
  \<open>user_id\<close>: the same SQL text, results, explanation and row count, or the same
  failure.
\<close>

theorem user_id_never_read:
  assumes "query r1 = query r2"
  shows "api_process_query eng r1 = api_process_query eng r2"
  using assms by (simp add: api_process_query_def)

theorem user_id_never_read_witness:
  "query \<lparr>query = ''Show me all customers from the USA'', user_id = ''alice''\<rparr>
     = query \<lparr>query = ''Show me all customers from the USA'', user_id = ''bob''\<rparr>
   \<and> api_process_query scenario_a_engine
         \<lparr>query = ''Show me all customers from the USA'', user_id = ''alice''\<rparr>
       = api_process_query scenario_a_engine
           \<lparr>query = ''Show me all customers from the USA'', user_id = ''bob''\<rparr>"
proof -
  have a: "query \<lparr>query = ''Show me all customers from the USA'', user_id = ''alice''\<rparr>
             = query \<lparr>query = ''Show me all customers from the USA'', user_id = ''bob''\<rparr>"
    by simp
  show ?thesis
    using user_id_never_read [OF a, where eng = scenario_a_engine] a by simp
qed

end
